theory Spec2Isabelle
  imports Complex_Main "HOL-Library.AList"
begin

section \<open>Python values, dictionaries and exceptions\<close>

text \<open>
  The two dataset classes (\<^verbatim>\<open>GuitarSet\<close> in \<^verbatim>\<open>guitarset.py\<close> and \<^verbatim>\<open>Slakh2100\<close> in
  \<^verbatim>\<open>slakh2100.py\<close>) build Python dictionaries out of values that library functions
  return. The model is dynamically typed like the source: one datatype of values, a
  dictionary as an association list in insertion order (Python dictionaries keep it, and
  the loop over \<^verbatim>\<open>meta["stems"].items()\<close> depends on it), a float as a real number (the
  code only passes floats on and tests them for truth), and every exception as a value
  of \<open>error\<close> on the left of a sum.
\<close>

datatype error =
    KeyError string
  | IndexError
  | TypeError
  | AttributeError
  | External string

text \<open>
  Objects of library classes the code never looks into: a decoded sample buffer
  (channels by samples), a note event (onset, offset, pitch, velocity) and a
  sustain-pedal interval (onset, offset).
\<close>

datatype obj =
    Array "real list list"
  | Note real real int int
  | Pedal real real

datatype pyval =
    VNone
  | VBool bool
  | VInt int
  | VFloat real
  | VStr string
  | VList "pyval list"
  | VDict "(string \<times> pyval) list"
  | VObj obj

type_synonym dict = "(string \<times> pyval) list"

text \<open>\<^verbatim>\<open>d[k]\<close> on a dictionary: the value, or \<^verbatim>\<open>KeyError\<close>.\<close>

definition getitem :: "dict \<Rightarrow> string \<Rightarrow> error + pyval" where
  "getitem d k = (case map_of d k of None \<Rightarrow> Inl (KeyError k) | Some v \<Rightarrow> Inr v)"

text \<open>\<^verbatim>\<open>d.update(e)\<close>: a key of \<open>e\<close> already in \<open>d\<close> keeps its place and takes the new
  value; a new key is appended.\<close>

definition dict_update :: "dict \<Rightarrow> dict \<Rightarrow> dict" where
  "dict_update d e = fold (\<lambda>(k, v). AList.update k v) e d"

text \<open>\<^verbatim>\<open>x[k]\<close> with a string key on any value: only a dictionary has it.\<close>

fun subscript :: "pyval \<Rightarrow> string \<Rightarrow> error + pyval" where
  "subscript (VDict d) k = getitem d k"
| "subscript v k = Inl TypeError"

text \<open>\<^verbatim>\<open>x.items()\<close>.\<close>

fun items :: "pyval \<Rightarrow> error + (string \<times> pyval) list" where
  "items (VDict d) = Inr d"
| "items v = Inl AttributeError"

text \<open>\<^verbatim>\<open>xs[i]\<close> with an integer index: a negative index counts from the end, an index
  out of range raises \<^verbatim>\<open>IndexError\<close>.\<close>

fun index :: "pyval \<Rightarrow> int \<Rightarrow> error + pyval" where
  "index (VList xs) i =
     (if 0 \<le> i \<and> i < int (length xs) then Inr (xs ! nat i)
      else if i < 0 \<and> - int (length xs) \<le> i then Inr (xs ! nat (int (length xs) + i))
      else Inl IndexError)"
| "index v i = Inl TypeError"

text \<open>\<^verbatim>\<open>len(x)\<close>.\<close>

fun len :: "pyval \<Rightarrow> error + nat" where
  "len (VList xs) = Inr (length xs)"
| "len (VDict d) = Inr (length d)"
| "len (VStr s) = Inr (length s)"
| "len v = Inl TypeError"

text \<open>The truth value Python's \<^verbatim>\<open>if x\<close> and \<^verbatim>\<open>not x\<close> take: \<^verbatim>\<open>None\<close>, \<^verbatim>\<open>False\<close>,
  zero and the empty string, list and dictionary are false. The code tests only what
  a crop returns as clip duration and the \<^verbatim>\<open>midi_saved\<close> entry of a YAML record; an
  object of a library class counts as true, Python's default.\<close>

fun truthy :: "pyval \<Rightarrow> bool" where
  "truthy VNone = False"
| "truthy (VBool b) = b"
| "truthy (VInt i) = (i \<noteq> 0)"
| "truthy (VFloat x) = (x \<noteq> 0)"
| "truthy (VStr s) = (s \<noteq> [])"
| "truthy (VList xs) = (xs \<noteq> [])"
| "truthy (VDict d) = (d \<noteq> [])"
| "truthy (VObj ob) = True"

text \<open>A value used where the library needs a \<^verbatim>\<open>str\<close> (a path).\<close>

fun as_str :: "pyval \<Rightarrow> error + string" where
  "as_str (VStr s) = Inr s"
| "as_str v = Inl TypeError"

text \<open>\<^verbatim>\<open>s.startswith(p)\<close>.\<close>

definition startswith :: "string \<Rightarrow> string \<Rightarrow> bool" where
  "startswith s p = (take (length p) s = p)"

section \<open>The libraries the datasets call\<close>

text \<open>
  A table as \<^verbatim>\<open>pandas.read_csv\<close> returns it: the column labels of the header line and
  the rows, each row giving the cell under a label. Every column of a table has one
  cell per row.
\<close>

record dataframe =
  columns :: "string list"
  rows :: "(string \<Rightarrow> string) list"

text \<open>\<^verbatim>\<open>df[label]\<close> with a string label, and the \<^verbatim>\<open>.values\<close> of the column: the cells in
  row order, or \<^verbatim>\<open>KeyError\<close> for a label the table does not have.\<close>

definition df_column :: "dataframe \<Rightarrow> string \<Rightarrow> error + string list" where
  "df_column df c =
     (if c \<in> set (columns df) then Inr (map (\<lambda>r. r c) (rows df)) else Inl (KeyError c))"

text \<open>
  \<^verbatim>\<open>df[b]\<close> with a single Python \<^verbatim>\<open>bool\<close> as pandas defines it: a scalar key is looked
  up among the column labels. The labels of a table read from a CSV header are strings,
  never the booleans \<^verbatim>\<open>True\<close> or \<^verbatim>\<open>False\<close>, so the lookup raises \<^verbatim>\<open>KeyError\<close>.
\<close>

definition pandas_getitem_bool :: "dataframe \<Rightarrow> bool \<Rightarrow> error + dataframe" where
  "pandas_getitem_bool df b = Inl (KeyError (if b then ''True'' else ''False''))"

text \<open>
  What the code imports and calls, taken as parameters: the file system, the decoders
  and parsers, the transforms' dispatcher and the random module are not code of the
  repository. \<open>'w\<close> is the state of the process-global generator of Python's
  \<^verbatim>\<open>random\<close> module, which \<^verbatim>\<open>random.choice\<close> reads and advances. Each function that can
  raise returns a sum.
  \<^item> \<open>Path\<close>: \<^verbatim>\<open>str(pathlib.Path(*segments))\<close>;
  \<^item> \<open>get_duration\<close>: \<^verbatim>\<open>librosa.get_duration(path=p)\<close>;
  \<^item> \<open>load\<close>: \<^verbatim>\<open>audidata.io.audio.load(path, sr, offset, duration)\<close>;
  \<^item> \<open>call\<close>: \<^verbatim>\<open>audidata.utils.call(transform, x)\<close>;
  \<^item> \<open>read_single_track_midi\<close>: \<^verbatim>\<open>audidata.io.midi.read_single_track_midi(midi_path, extend_pedal)\<close>,
    the notes (with offsets extended over the sustain pedal when the flag is set) and
    the pedal intervals;
  \<^item> \<open>read_midi_beat\<close>: \<^verbatim>\<open>audidata.io.midi.read_midi_beat(path)\<close>, beats and downbeats;
  \<^item> \<open>clip_notes\<close>: \<^verbatim>\<open>audidata.io.midi.clip_notes(events, start_time, duration)\<close>;
  \<^item> \<open>random_choice\<close>: \<^verbatim>\<open>random.choice(seq)\<close> on the global generator;
  \<^item> \<open>yaml_load\<close>: \<^verbatim>\<open>open(path)\<close> and \<^verbatim>\<open>yaml.load(f, Loader=yaml.FullLoader)\<close>;
  \<^item> \<open>read_csv\<close>: \<^verbatim>\<open>pandas.read_csv(path, sep=",")\<close>;
  \<^item> \<open>series_str\<close>: \<^verbatim>\<open>str(series)\<close>, the printed form of a whole column;
  \<^item> \<open>df_getitem_bool\<close>: \<^verbatim>\<open>df[b]\<close> for a single \<^verbatim>\<open>bool\<close> (\<open>pandas_getitem_bool\<close> above is
    what pandas does);
  \<^item> \<open>sorted_listdir\<close>: \<^verbatim>\<open>sorted(os.listdir(path))\<close>;
  \<^item> \<open>update_iterable\<close>: \<^verbatim>\<open>d.update(v)\<close> of Python's \<^verbatim>\<open>dict\<close> for a value \<^verbatim>\<open>v\<close> that is
    not a dictionary. Python then iterates \<^verbatim>\<open>v\<close> for key/value pairs: an empty list
    changes nothing, a list of pairs sets each key, a value that cannot be iterated raises
    \<^verbatim>\<open>TypeError\<close>. It is a parameter because the pairs may bring keys that are not
    strings, while the dictionaries modelled here are keyed by strings; no property below
    depends on it.
\<close>

record 'w ext =
  Path :: "string list \<Rightarrow> string"
  get_duration :: "string \<Rightarrow> error + real"
  load :: "string \<Rightarrow> real \<Rightarrow> pyval \<Rightarrow> pyval \<Rightarrow> error + pyval"
  call :: "(pyval \<Rightarrow> error + pyval) \<Rightarrow> pyval \<Rightarrow> error + pyval"
  read_single_track_midi :: "string \<Rightarrow> bool \<Rightarrow> error + (pyval \<times> pyval)"
  read_midi_beat :: "string \<Rightarrow> error + (pyval \<times> pyval)"
  clip_notes :: "pyval \<Rightarrow> pyval \<Rightarrow> pyval \<Rightarrow> error + pyval"
  random_choice :: "string list \<Rightarrow> 'w \<Rightarrow> string \<times> 'w"
  yaml_load :: "string \<Rightarrow> error + pyval"
  read_csv :: "string \<Rightarrow> error + dataframe"
  series_str :: "string list \<Rightarrow> string"
  df_getitem_bool :: "dataframe \<Rightarrow> bool \<Rightarrow> error + dataframe"
  sorted_listdir :: "string \<Rightarrow> error + string list"
  update_iterable :: "dict \<Rightarrow> pyval \<Rightarrow> error + dict"

section \<open>The dataset object\<close>

text \<open>
  Both classes set the same attributes in \<^verbatim>\<open>__init__\<close>. \<^verbatim>\<open>crop\<close>, \<^verbatim>\<open>transform\<close> and
  \<^verbatim>\<open>target_transform\<close> are optional callables: \<open>None\<close> is Python's \<^verbatim>\<open>None\<close>, and a
  callable object is true in \<^verbatim>\<open>if self.crop\<close>. A crop takes the audio duration and
  returns the pair \<^verbatim>\<open>(start_time, clip_duration)\<close>; it may draw from the global
  generator. The attribute \<^verbatim>\<open>root\<close> is the field \<open>root_dir\<close> (\<open>root\<close> is a constant of
  HOL).
\<close>

record 'w dataset =
  root_dir :: string
  split :: string
  sr :: real
  crop :: "(real \<Rightarrow> 'w \<Rightarrow> error + ((pyval \<times> pyval) \<times> 'w)) option"
  transform :: "(pyval \<Rightarrow> error + pyval) option"
  load_target :: bool
  extend_pedal :: bool
  target_transform :: "(pyval \<Rightarrow> error + pyval) option"
  meta_dict :: dict

section \<open>GuitarSet\<close>

text \<open>The list comprehension \<^verbatim>\<open>[librosa.get_duration(path=p) for p in audio_paths]\<close>:
  the first failure ends it.\<close>

fun durations_of :: "'w ext \<Rightarrow> string list \<Rightarrow> error + real list" where
  "durations_of X [] = Inr []"
| "durations_of X (p # ps) =
     (case get_duration X p of
        Inl e \<Rightarrow> Inl e
      | Inr d \<Rightarrow> (case durations_of X ps of Inl e \<Rightarrow> Inl e | Inr ds \<Rightarrow> Inr (d # ds)))"

text \<open>
  \<^verbatim>\<open>GuitarSet.load_meta\<close>. The split test is written
  \<^verbatim>\<open>df[str(df["File Path"]).startswith("05")]\<close>: \<^verbatim>\<open>str\<close> of the whole column, one
  \<^verbatim>\<open>bool\<close>, and the table indexed with that \<^verbatim>\<open>bool\<close> (with its negation for the other
  splits).
\<close>

definition GuitarSet_load_meta :: "'w ext \<Rightarrow> string \<Rightarrow> string \<Rightarrow> string \<Rightarrow> error + dict" where
  "GuitarSet_load_meta X root' split' meta_csv =
     (case read_csv X meta_csv of Inl e \<Rightarrow> Inl e | Inr df0 \<Rightarrow>
      (case df_column df0 ''File Path'' of Inl e \<Rightarrow> Inl e | Inr col \<Rightarrow>
      (case (if split' = ''test''
             then df_getitem_bool X df0 (startswith (series_str X col) ''05'')
             else df_getitem_bool X df0 (\<not> startswith (series_str X col) ''05'')) of
         Inl e \<Rightarrow> Inl e | Inr df \<Rightarrow>
      (case df_column df ''File Path'' of Inl e \<Rightarrow> Inl e | Inr audio_names \<Rightarrow>
      (case df_column df ''Midi_file_path'' of Inl e \<Rightarrow> Inl e | Inr midi_names \<Rightarrow>
       (let audio_paths = map (\<lambda>name. Path X [root', ''data'', name]) audio_names;
            midi_paths = map (\<lambda>name. Path X [root', ''data'', name]) midi_names
        in (case durations_of X audio_paths of Inl e \<Rightarrow> Inl e | Inr durations \<Rightarrow>
            Inr [(''audio_name'', VList (map VStr audio_names)),
                 (''audio_path'', VList (map VStr audio_paths)),
                 (''midi_name'', VList (map VStr midi_names)),
                 (''midi_path'', VList (map VStr midi_paths)),
                 (''duration'', VList (map VFloat durations))])))))))"


text \<open>\<^verbatim>\<open>GuitarSet.__len__\<close>.\<close>

definition GuitarSet_len :: "'w dataset \<Rightarrow> error + nat" where
  "GuitarSet_len self =
     (case getitem (meta_dict self) ''audio_name'' of Inl e \<Rightarrow> Inl e | Inr names \<Rightarrow> len names)"

text \<open>\<^verbatim>\<open>GuitarSet.load_audio_data\<close>. Without a crop the window starts at \<^verbatim>\<open>0.0\<close> and
  lasts the audio's duration.\<close>

definition GuitarSet_load_audio_data ::
  "'w ext \<Rightarrow> 'w dataset \<Rightarrow> string \<Rightarrow> 'w \<Rightarrow> error + (dict \<times> 'w)" where
  "GuitarSet_load_audio_data X self path w =
     (case get_duration X path of Inl e \<Rightarrow> Inl e | Inr audio_duration \<Rightarrow>
      (case (case crop self of
               Some c \<Rightarrow> c audio_duration w
             | None \<Rightarrow> Inr ((VFloat 0, VFloat audio_duration), w)) of
         Inl e \<Rightarrow> Inl e
       | Inr ((start_time, clip_duration), w') \<Rightarrow>
      (case load X path (sr self) start_time clip_duration of Inl e \<Rightarrow> Inl e | Inr audio \<Rightarrow>
      (case (case transform self of None \<Rightarrow> Inr audio | Some t \<Rightarrow> call X t audio) of
         Inl e \<Rightarrow> Inl e
       | Inr audio' \<Rightarrow>
           Inr ([(''audio'', audio'), (''start_time'', start_time),
                 (''duration'', clip_duration)], w')))))"

text \<open>\<^verbatim>\<open>GuitarSet.load_question_data\<close>: one of five prompts, drawn by \<^verbatim>\<open>random.choice\<close>
  from the global generator.\<close>

definition GuitarSet_load_question_data :: "'w ext \<Rightarrow> 'w \<Rightarrow> dict \<times> 'w" where
  "GuitarSet_load_question_data X w =
     (let questions = [''Music transcription.'',
                       ''Convert audio music into MIDI data format.'',
                       ''Transcribe music recordings into MIDI note sequences.'',
                       ''Automatically generate MIDI file from audio music.'',
                       ''Extract music elements and convert to MIDI notes.''];
          (question, w') = random_choice X questions w
      in ([(''question'', VStr question)], w'))"

text \<open>\<^verbatim>\<open>GuitarSet.load_target_data\<close>: read the MIDI file (pedal extension happens in the
  reader, under the flag), clip notes and pedals to the window, build the target, apply
  the target transform if there is one.\<close>

definition GuitarSet_load_target_data ::
  "'w ext \<Rightarrow> 'w dataset \<Rightarrow> string \<Rightarrow> pyval \<Rightarrow> pyval \<Rightarrow> error + pyval" where
  "GuitarSet_load_target_data X self midi_path start_time duration =
     (case read_single_track_midi X midi_path (extend_pedal self) of
        Inl e \<Rightarrow> Inl e
      | Inr (notes0, pedals0) \<Rightarrow>
      (case clip_notes X notes0 start_time duration of Inl e \<Rightarrow> Inl e | Inr notes \<Rightarrow>
      (case clip_notes X pedals0 start_time duration of Inl e \<Rightarrow> Inl e | Inr pedals \<Rightarrow>
       (let target = VDict [(''note'', notes), (''pedal'', pedals),
                            (''start_time'', start_time), (''duration'', duration),
                            (''midi_path'', VStr midi_path)]
        in (case target_transform self of
              Some t \<Rightarrow> call X t target
            | None \<Rightarrow> Inr target)))))"

text \<open>
  \<^verbatim>\<open>GuitarSet.__getitem__\<close>. The method looks the two paths up, builds \<^verbatim>\<open>full_data\<close>,
  loads the audio and updates \<^verbatim>\<open>full_data\<close> with it; there the body ends. It has no
  \<^verbatim>\<open>return\<close> statement, so the caller receives \<^verbatim>\<open>None\<close>; neither
  \<^verbatim>\<open>load_question_data\<close> nor \<^verbatim>\<open>load_target_data\<close> is called.
\<close>

definition GuitarSet_getitem ::
  "'w ext \<Rightarrow> 'w dataset \<Rightarrow> int \<Rightarrow> 'w \<Rightarrow> error + (pyval \<times> 'w)" where
  "GuitarSet_getitem X self i w =
     (case getitem (meta_dict self) ''audio_path'' of Inl e \<Rightarrow> Inl e | Inr aps \<Rightarrow>
      (case index aps i of Inl e \<Rightarrow> Inl e | Inr audio_path \<Rightarrow>
      (case getitem (meta_dict self) ''midi_path'' of Inl e \<Rightarrow> Inl e | Inr mps \<Rightarrow>
      (case index mps i of Inl e \<Rightarrow> Inl e | Inr midi_path \<Rightarrow>
       (let full_data = [(''dataset_name'', VStr ''GuitarSet''),
                         (''audio_path'', audio_path), (''midi_path'', midi_path)]
        in (case as_str audio_path of Inl e \<Rightarrow> Inl e | Inr path \<Rightarrow>
            (case GuitarSet_load_audio_data X self path w of
               Inl e \<Rightarrow> Inl e
             | Inr (audio_data, w') \<Rightarrow>
                 (let full_data' = dict_update full_data audio_data
                  in Inr (VNone, w')))))))))"

section \<open>Slakh2100\<close>

text \<open>\<^verbatim>\<open>Slakh2100.__init__\<close>: the attributes, and the sorted names of the directory
  \<^verbatim>\<open>Path(root, split)\<close> as \<^verbatim>\<open>meta_dict["audio_name"]\<close>.\<close>

definition Slakh2100_init ::
  "'w ext \<Rightarrow> string \<Rightarrow> string \<Rightarrow> real \<Rightarrow>
   (real \<Rightarrow> 'w \<Rightarrow> error + ((pyval \<times> pyval) \<times> 'w)) option \<Rightarrow>
   (pyval \<Rightarrow> error + pyval) option \<Rightarrow> bool \<Rightarrow> bool \<Rightarrow>
   (pyval \<Rightarrow> error + pyval) option \<Rightarrow> error + 'w dataset" where
  "Slakh2100_init X root' split' sr' crop' transform' load_target' extend_pedal' target_transform' =
     (case sorted_listdir X (Path X [root', split']) of
        Inl e \<Rightarrow> Inl e
      | Inr names \<Rightarrow>
          Inr \<lparr>root_dir = root', split = split', sr = sr', crop = crop',
               transform = transform', load_target = load_target',
               extend_pedal = extend_pedal', target_transform = target_transform',
               meta_dict = [(''audio_name'', VList (map VStr names))]\<rparr>)"

text \<open>\<^verbatim>\<open>Slakh2100.__len__\<close>.\<close>

definition Slakh2100_len :: "'w dataset \<Rightarrow> error + nat" where
  "Slakh2100_len self =
     (case getitem (meta_dict self) ''audio_name'' of Inl e \<Rightarrow> Inl e | Inr names \<Rightarrow> len names)"

text \<open>
  \<^verbatim>\<open>Slakh2100.load_audio\<close>. Without a crop the start is \<^verbatim>\<open>0.0\<close> and the clip duration
  \<^verbatim>\<open>None\<close> (the decoder then reads to the end); the reported duration is
  \<^verbatim>\<open>clip_duration if clip_duration else audio_duration\<close>. The transform is called
  directly and replaces \<^verbatim>\<open>data["audio"]\<close>.
\<close>

definition Slakh2100_load_audio ::
  "'w ext \<Rightarrow> 'w dataset \<Rightarrow> string \<Rightarrow> 'w \<Rightarrow> error + (dict \<times> 'w)" where
  "Slakh2100_load_audio X self path w =
     (case get_duration X path of Inl e \<Rightarrow> Inl e | Inr audio_duration \<Rightarrow>
      (case (case crop self of
               Some c \<Rightarrow> c audio_duration w
             | None \<Rightarrow> Inr ((VFloat 0, VNone), w)) of
         Inl e \<Rightarrow> Inl e
       | Inr ((start_time, clip_duration), w') \<Rightarrow>
      (case load X path (sr self) start_time clip_duration of Inl e \<Rightarrow> Inl e | Inr audio \<Rightarrow>
       (let data = [(''audio'', audio), (''start_time'', start_time),
                    (''duration'', if truthy clip_duration then clip_duration
                                   else VFloat audio_duration)]
        in (case transform self of
              None \<Rightarrow> Inr (data, w')
            | Some t \<Rightarrow>
                (case getitem data ''audio'' of Inl e \<Rightarrow> Inl e | Inr a \<Rightarrow>
                 (case t a of Inl e \<Rightarrow> Inl e
                  | Inr a' \<Rightarrow> Inr (AList.update ''audio'' a' data, w'))))))))"

text \<open>\<^verbatim>\<open>Slakh2100.load_question\<close>: the same five prompts, the same global draw.\<close>

definition Slakh2100_load_question :: "'w ext \<Rightarrow> 'w \<Rightarrow> dict \<times> 'w" where
  "Slakh2100_load_question X w =
     (let questions = [''Music transcription.'',
                       ''Convert audio music into MIDI data format.'',
                       ''Transcribe music recordings into MIDI note sequences.'',
                       ''Automatically generate MIDI file from audio music.'',
                       ''Extract music elements and convert to MIDI notes.''];
          (question, w') = random_choice X questions w
      in ([(''question'', VStr question)], w'))"

text \<open>
  The loop of \<^verbatim>\<open>Slakh2100.load_target_data\<close> over \<^verbatim>\<open>meta["stems"].items()\<close>, with the
  list \<^verbatim>\<open>data["tracks"]\<close> it appends to. A stem whose \<^verbatim>\<open>midi_saved\<close> is false is
  skipped by \<^verbatim>\<open>continue\<close> before any other key is read; for the others the four
  metadata keys are read, the stem's own file \<^verbatim>\<open>Path(midis_dir, stem_name + ".mid")\<close> is
  parsed and the track record is appended. Nothing is clipped here.
\<close>

fun load_target_data_stems ::
  "'w ext \<Rightarrow> 'w dataset \<Rightarrow> string \<Rightarrow> (string \<times> pyval) list \<Rightarrow> pyval list \<Rightarrow> error + pyval list" where
  "load_target_data_stems X self midis_dir [] tracks = Inr tracks"
| "load_target_data_stems X self midis_dir ((stem_name, stem_data) # rest) tracks =
     (case subscript stem_data ''midi_saved'' of Inl e \<Rightarrow> Inl e | Inr saved \<Rightarrow>
      if \<not> truthy saved then load_target_data_stems X self midis_dir rest tracks
      else
      (case subscript stem_data ''inst_class'' of Inl e \<Rightarrow> Inl e | Inr inst_class \<Rightarrow>
      (case subscript stem_data ''is_drum'' of Inl e \<Rightarrow> Inl e | Inr is_drum \<Rightarrow>
      (case subscript stem_data ''plugin_name'' of Inl e \<Rightarrow> Inl e | Inr plugin_name \<Rightarrow>
      (case subscript stem_data ''program_num'' of Inl e \<Rightarrow> Inl e | Inr program_num \<Rightarrow>
      (case read_single_track_midi X (Path X [midis_dir, stem_name @ ''.mid''])
              (extend_pedal self) of
         Inl e \<Rightarrow> Inl e
       | Inr (notes, pedals) \<Rightarrow>
           load_target_data_stems X self midis_dir rest
             (tracks @ [VDict [(''track_name'', VStr stem_name),
                               (''inst_class'', inst_class),
                               (''is_drum'', is_drum),
                               (''plugin_name'', plugin_name),
                               (''program_num'', program_num),
                               (''note'', notes),
                               (''pedal'', pedals)]])))))))"

text \<open>\<^verbatim>\<open>Slakh2100.load_target_data\<close>: the YAML record, the beats of the mix, the
  tracks, and the target transform (called directly) if there is one.\<close>

definition Slakh2100_load_target_data ::
  "'w ext \<Rightarrow> 'w dataset \<Rightarrow> string \<Rightarrow> string \<Rightarrow> string \<Rightarrow> pyval \<Rightarrow> pyval \<Rightarrow> error + pyval" where
  "Slakh2100_load_target_data X self meta_yaml mix_midi_path midis_dir start_time clip_duration =
     (case yaml_load X meta_yaml of Inl e \<Rightarrow> Inl e | Inr meta \<Rightarrow>
      (case read_midi_beat X mix_midi_path of Inl e \<Rightarrow> Inl e | Inr (beats, downbeats) \<Rightarrow>
      (case subscript meta ''stems'' of Inl e \<Rightarrow> Inl e | Inr stems \<Rightarrow>
      (case items stems of Inl e \<Rightarrow> Inl e | Inr stem_items \<Rightarrow>
      (case load_target_data_stems X self midis_dir stem_items [] of
         Inl e \<Rightarrow> Inl e
       | Inr tracks \<Rightarrow>
          (let data = VDict [(''start_time'', start_time),
                             (''clip_duration'', clip_duration),
                             (''beat'', beats),
                             (''downbeat'', downbeats),
                             (''tracks'', VList tracks)]
           in (case target_transform self of
                 Some t \<Rightarrow> t data
               | None \<Rightarrow> Inr data)))))))"

text \<open>\<^verbatim>\<open>full_data.update(x)\<close> with the value a loader returned: a dictionary is merged
  in; for any other value Python iterates it for key/value pairs.\<close>

fun update_with :: "'w ext \<Rightarrow> dict \<Rightarrow> pyval \<Rightarrow> error + dict" where
  "update_with X d (VDict e) = Inr (dict_update d e)"
| "update_with X d v = update_iterable X d v"

text \<open>
  \<^verbatim>\<open>Slakh2100.__getitem__\<close>: the paths under
  \<^verbatim>\<open>Path(root, split, meta_dict["audio_name"][index])\<close>, the audio, the question, and,
  when \<^verbatim>\<open>load_target\<close> is set, the target for the window the audio loader reported; the
  merged dictionary is returned.
\<close>

definition Slakh2100_getitem ::
  "'w ext \<Rightarrow> 'w dataset \<Rightarrow> int \<Rightarrow> 'w \<Rightarrow> error + (pyval \<times> 'w)" where
  "Slakh2100_getitem X self i w =
     (case getitem (meta_dict self) ''audio_name'' of Inl e \<Rightarrow> Inl e | Inr names \<Rightarrow>
      (case index names i of Inl e \<Rightarrow> Inl e | Inr name_v \<Rightarrow>
      (case as_str name_v of Inl e \<Rightarrow> Inl e | Inr name \<Rightarrow>
       (let prefix = Path X [root_dir self, split self, name];
            audio_path = Path X [prefix, ''mix.flac''];
            meta_yaml = Path X [prefix, ''metadata.yaml''];
            mix_midi_path = Path X [prefix, ''all_src.mid''];
            midis_dir = Path X [prefix, ''MIDI''];
            full_data = [(''dataset_name'', VStr ''Slakh2100''),
                         (''audio_path'', VStr audio_path)]
        in (case Slakh2100_load_audio X self audio_path w of
              Inl e \<Rightarrow> Inl e
            | Inr (audio_data, w1) \<Rightarrow>
           (let full_data1 = dict_update full_data audio_data;
                (question_data, w2) = Slakh2100_load_question X w1;
                full_data2 = dict_update full_data1 question_data
            in if load_target self then
                 (case getitem audio_data ''start_time'' of Inl e \<Rightarrow> Inl e | Inr st \<Rightarrow>
                  (case getitem audio_data ''duration'' of Inl e \<Rightarrow> Inl e | Inr du \<Rightarrow>
                   (case Slakh2100_load_target_data X self meta_yaml mix_midi_path
                           midis_dir st du of
                      Inl e \<Rightarrow> Inl e
                    | Inr target_data \<Rightarrow>
                        (case update_with X full_data2 target_data of
                           Inl e \<Rightarrow> Inl e
                         | Inr full_data3 \<Rightarrow> Inr (VDict full_data3, w2)))))
               else Inr (VDict full_data2, w2)))))))"

text \<open>The test of the loop: \<^verbatim>\<open>stem_data["midi_saved"]\<close> is there and true.\<close>

definition stem_saved :: "pyval \<Rightarrow> bool" where
  "stem_saved stem_data =
     (case subscript stem_data ''midi_saved'' of Inl e \<Rightarrow> False | Inr saved \<Rightarrow> truthy saved)"

section \<open>A concrete environment\<close>

text \<open>Concrete library functions and files, on which the model is evaluated.\<close>

text \<open>Path segments joined by a slash.\<close>

fun join_path :: "string list \<Rightarrow> string" where
  "join_path [] = []"
| "join_path [s] = s"
| "join_path (s # t) = s @ ''/'' @ join_path t"

text \<open>A clipper: an event is kept when its interval meets the window
  \<open>[s, s + d)\<close> in more than a point, clamped to the window and re-based to its start.\<close>

fun clip_event :: "real \<Rightarrow> real \<Rightarrow> pyval \<Rightarrow> pyval list" where
  "clip_event s d (VObj (Note onset offset p v)) =
     (if max onset s < min offset (s + d)
      then [VObj (Note (max onset s - s) (min offset (s + d) - s) p v)] else [])"
| "clip_event s d (VObj (Pedal onset offset)) =
     (if max onset s < min offset (s + d)
      then [VObj (Pedal (max onset s - s) (min offset (s + d) - s))] else [])"
| "clip_event s d v = []"

fun sample_clip_notes :: "pyval \<Rightarrow> pyval \<Rightarrow> pyval \<Rightarrow> error + pyval" where
  "sample_clip_notes (VList es) (VFloat s) (VFloat d) = Inr (VList (concat (map (clip_event s d) es)))"
| "sample_clip_notes es s d = Inl TypeError"

text \<open>A MIDI reader: three notes and one pedal interval \<open>[0.5, 3)\<close> in every file;
  with the flag the first note's offset is extended from \<open>1\<close> to the pedal's release
  at \<open>3\<close>. The file of stem \<^verbatim>\<open>S01\<close> does not exist.\<close>

definition sample_read_midi :: "string \<Rightarrow> bool \<Rightarrow> error + (pyval \<times> pyval)" where
  "sample_read_midi p ext_pedal =
     (if p = ''root/train/Track00001/MIDI/S01.mid'' then Inl (External ''no such file'')
      else Inr (VList [VObj (Note 0 (if ext_pedal then 3 else 1) 60 100),
                       VObj (Note 8 14 62 90), VObj (Note 20 21 64 80)],
                VList [VObj (Pedal (1/2) 3)]))"

text \<open>A \<^verbatim>\<open>metadata.yaml\<close> with three stems; the MIDI of \<^verbatim>\<open>S01\<close> was not saved, and
  its record has no other key.\<close>

definition sample_meta :: pyval where
  "sample_meta = VDict [(''stems'', VDict [
      (''S00'', VDict [(''inst_class'', VStr ''Guitar''), (''is_drum'', VBool False),
                       (''midi_saved'', VBool True), (''plugin_name'', VStr ''nylon.nkm''),
                       (''program_num'', VInt 24)]),
      (''S01'', VDict [(''midi_saved'', VBool False)]),
      (''S02'', VDict [(''inst_class'', VStr ''Drums''), (''is_drum'', VBool True),
                       (''midi_saved'', VBool True), (''plugin_name'', VStr ''kit.nkm''),
                       (''program_num'', VInt 128)])])]"

text \<open>A \<^verbatim>\<open>metadata.csv\<close> with one row whose file name starts with \<^verbatim>\<open>05\<close> and one whose
  name does not.\<close>

definition sample_table :: dataframe where
  "sample_table = \<lparr>columns = [''File Path'', ''Midi_file_path''],
     rows = [(\<lambda>c. if c = ''File Path'' then ''05_a.wav'' else ''05_a.mid''),
             (\<lambda>c. if c = ''File Path'' then ''00_b.wav'' else ''00_b.mid'')]\<rparr>"

text \<open>\<^verbatim>\<open>d.update(v)\<close> for the values that are not dictionaries: a list of pairs
  \<^verbatim>\<open>[key, value]\<close> with string keys sets each key in turn, so the empty list and the empty
  string change nothing; anything else raises.\<close>

fun sample_update_pairs :: "dict \<Rightarrow> pyval list \<Rightarrow> error + dict" where
  "sample_update_pairs d [] = Inr d"
| "sample_update_pairs d (VList [VStr k, v] # rest) = sample_update_pairs (AList.update k v d) rest"
| "sample_update_pairs d (x # rest) = Inl TypeError"

fun sample_update_iterable :: "dict \<Rightarrow> pyval \<Rightarrow> error + dict" where
  "sample_update_iterable d (VList xs) = sample_update_pairs d xs"
| "sample_update_iterable d (VStr []) = Inr d"
| "sample_update_iterable d v = Inl TypeError"

text \<open>The environment: every audio file lasts 30 seconds; \<^verbatim>\<open>random.choice\<close> with the
  generator state \<open>w\<close> picks the element at \<open>w mod length xs\<close> and advances the state;
  a single \<^verbatim>\<open>bool\<close> indexes a table as in pandas.\<close>

definition sample_ext :: "nat ext" where
  "sample_ext = \<lparr>
     Path = join_path,
     get_duration = (\<lambda>p. Inr 30),
     load = (\<lambda>p r offset d. Inr (VObj (Array [[0, 0]]))),
     call = (\<lambda>t x. t x),
     read_single_track_midi = sample_read_midi,
     read_midi_beat = (\<lambda>p. Inr (VList [VFloat 0, VFloat 1], VList [VFloat 0])),
     clip_notes = sample_clip_notes,
     random_choice = (\<lambda>xs w. (xs ! (w mod length xs), Suc w)),
     yaml_load = (\<lambda>p. Inr sample_meta),
     read_csv = (\<lambda>p. Inr sample_table),
     series_str = (\<lambda>xs. case xs of [] \<Rightarrow> ''Series([], )'' | x # r \<Rightarrow> ''0    '' @ x),
     df_getitem_bool = pandas_getitem_bool,
     sorted_listdir = (\<lambda>p. Inr [''Track00001'']),
     update_iterable = sample_update_iterable\<rparr>"

text \<open>Two dataset objects, without crop and transforms.\<close>

definition sample_guitarset :: "nat dataset" where
  "sample_guitarset = \<lparr>root_dir = ''root'', split = ''test'', sr = 44100, crop = None,
     transform = None, load_target = True, extend_pedal = True, target_transform = None,
     meta_dict = [(''audio_name'', VList [VStr ''05_a.wav'']),
                  (''audio_path'', VList [VStr ''root/data/05_a.wav'']),
                  (''midi_name'', VList [VStr ''05_a.mid'']),
                  (''midi_path'', VList [VStr ''root/data/05_a.mid'']),
                  (''duration'', VList [VFloat 30])]\<rparr>"

definition sample_slakh :: "nat dataset" where
  "sample_slakh = \<lparr>root_dir = ''root'', split = ''train'', sr = 44100, crop = None,
     transform = None, load_target = True, extend_pedal = True, target_transform = None,
     meta_dict = [(''audio_name'', VList [VStr ''Track00001''])]\<rparr>"

section \<open>Properties\<close>

text \<open>
  Claim C3. When cropping is disabled (\<^verbatim>\<open>crop\<close> is \<^verbatim>\<open>None\<close>), the window that
  \<^verbatim>\<open>GuitarSet.load_audio_data\<close> and \<^verbatim>\<open>Slakh2100.load_audio\<close> report is the whole
  recording: whenever either returns, \<^verbatim>\<open>start_time\<close> is \<^verbatim>\<open>0.0\<close> and \<^verbatim>\<open>duration\<close> is what
  \<^verbatim>\<open>librosa.get_duration\<close> gave for the path, and the global generator is untouched.
\<close>

theorem no_crop_full_window:
  assumes "crop self = None"
  shows "(GuitarSet_load_audio_data X self path w = Inr (data, w') \<longrightarrow>
            (\<exists>d. get_duration X path = Inr d \<and> w' = w
                \<and> getitem data ''start_time'' = Inr (VFloat 0)
                \<and> getitem data ''duration'' = Inr (VFloat d)))
       \<and> (Slakh2100_load_audio X self path w = Inr (data, w') \<longrightarrow>
            (\<exists>d. get_duration X path = Inr d \<and> w' = w
                \<and> getitem data ''start_time'' = Inr (VFloat 0)
                \<and> getitem data ''duration'' = Inr (VFloat d)))"
  using assms
  by (auto simp: GuitarSet_load_audio_data_def Slakh2100_load_audio_def getitem_def Let_def
           split: sum.splits option.splits prod.splits)


text \<open>Both loaders return on the sample files, with the window \<open>(0, 30)\<close>.\<close>

theorem no_crop_full_window_witness:
  "crop sample_guitarset = None \<and> crop sample_slakh = None
   \<and> (\<exists>data. GuitarSet_load_audio_data sample_ext sample_guitarset ''root/data/05_a.wav'' 0 = Inr (data, 0)
         \<and> get_duration sample_ext ''root/data/05_a.wav'' = Inr 30
         \<and> getitem data ''start_time'' = Inr (VFloat 0)
         \<and> getitem data ''duration'' = Inr (VFloat 30))
   \<and> (\<exists>data. Slakh2100_load_audio sample_ext sample_slakh ''root/train/Track00001/mix.flac'' 0 = Inr (data, 0)
         \<and> getitem data ''start_time'' = Inr (VFloat 0)
         \<and> getitem data ''duration'' = Inr (VFloat 30))"
proof -
  have c1: "crop sample_guitarset = None" and c2: "crop sample_slakh = None"
    by (simp_all add: sample_guitarset_def sample_slakh_def)
  have d: "get_duration sample_ext p = Inr 30" for p
    by (simp add: sample_ext_def)
  have r1: "GuitarSet_load_audio_data sample_ext sample_guitarset ''root/data/05_a.wav'' 0 =
      Inr ([(''audio'', VObj (Array [[0, 0]])), (''start_time'', VFloat 0),
            (''duration'', VFloat 30)], 0)"
    by (simp add: GuitarSet_load_audio_data_def sample_ext_def sample_guitarset_def)
  have r2: "Slakh2100_load_audio sample_ext sample_slakh ''root/train/Track00001/mix.flac'' 0 =
      Inr ([(''audio'', VObj (Array [[0, 0]])), (''start_time'', VFloat 0),
            (''duration'', VFloat 30)], 0)"
    by (simp add: Slakh2100_load_audio_def sample_ext_def sample_slakh_def)
  from no_crop_full_window [OF c1, of sample_ext "''root/data/05_a.wav''" 0 _ 0] r1 d
  have g: "getitem [(''audio'', VObj (Array [[0, 0]])), (''start_time'', VFloat 0),
            (''duration'', VFloat 30)] ''start_time'' = Inr (VFloat 0)
         \<and> getitem [(''audio'', VObj (Array [[0, 0]])), (''start_time'', VFloat 0),
            (''duration'', VFloat 30)] ''duration'' = Inr (VFloat 30)"
    by auto
  from no_crop_full_window [OF c2, of sample_ext "''root/train/Track00001/mix.flac''" 0 _ 0] r2 d
  have s: "getitem [(''audio'', VObj (Array [[0, 0]])), (''start_time'', VFloat 0),
            (''duration'', VFloat 30)] ''start_time'' = Inr (VFloat 0)
         \<and> getitem [(''audio'', VObj (Array [[0, 0]])), (''start_time'', VFloat 0),
            (''duration'', VFloat 30)] ''duration'' = Inr (VFloat 30)"
    by auto
  show ?thesis using c1 c2 r1 r2 d g s by simp
qed

text \<open>
  Claim C10. The \<^verbatim>\<open>question\<close> field that \<^verbatim>\<open>load_question_data\<close> and \<^verbatim>\<open>load_question\<close>
  return is one of the five fixed prompts, in every state of the generator. The
  hypothesis is the documented contract of \<^verbatim>\<open>random.choice\<close>: it returns an element of
  a non-empty sequence.
\<close>

theorem question_is_fixed_prompt:
  assumes "\<forall>xs w. xs \<noteq> [] \<longrightarrow> fst (random_choice X xs w) \<in> set xs"
  shows "(\<exists>q. fst (GuitarSet_load_question_data X w) = [(''question'', VStr q)]
            \<and> q \<in> {''Music transcription.'',
                     ''Convert audio music into MIDI data format.'',
                     ''Transcribe music recordings into MIDI note sequences.'',
                     ''Automatically generate MIDI file from audio music.'',
                     ''Extract music elements and convert to MIDI notes.''})
       \<and> (\<exists>q. fst (Slakh2100_load_question X w) = [(''question'', VStr q)]
            \<and> q \<in> {''Music transcription.'',
                     ''Convert audio music into MIDI data format.'',
                     ''Transcribe music recordings into MIDI note sequences.'',
                     ''Automatically generate MIDI file from audio music.'',
                     ''Extract music elements and convert to MIDI notes.''})"
proof -
  let ?qs = "[''Music transcription.'',
              ''Convert audio music into MIDI data format.'',
              ''Transcribe music recordings into MIDI note sequences.'',
              ''Automatically generate MIDI file from audio music.'',
              ''Extract music elements and convert to MIDI notes.'']"
  have "fst (random_choice X ?qs w) \<in> set ?qs"
    using assms by blast
  then show ?thesis
    by (simp add: GuitarSet_load_question_data_def Slakh2100_load_question_def
          case_prod_beta Let_def)
qed

text \<open>The sample generator meets the contract; in state \<open>7\<close> it draws the third prompt.\<close>

theorem question_is_fixed_prompt_witness:
  "(\<exists>q. fst (GuitarSet_load_question_data sample_ext 7) = [(''question'', VStr q)]
        \<and> q \<in> {''Music transcription.'',
                 ''Convert audio music into MIDI data format.'',
                 ''Transcribe music recordings into MIDI note sequences.'',
                 ''Automatically generate MIDI file from audio music.'',
                 ''Extract music elements and convert to MIDI notes.''})
   \<and> (\<exists>q. fst (Slakh2100_load_question sample_ext 7) = [(''question'', VStr q)]
        \<and> q \<in> {''Music transcription.'',
                 ''Convert audio music into MIDI data format.'',
                 ''Transcribe music recordings into MIDI note sequences.'',
                 ''Automatically generate MIDI file from audio music.'',
                 ''Extract music elements and convert to MIDI notes.''})
   \<and> fst (GuitarSet_load_question_data sample_ext 7) =
        [(''question'', VStr ''Transcribe music recordings into MIDI note sequences.'')]"
proof -
  have h: "\<forall>xs w. xs \<noteq> [] \<longrightarrow> fst (random_choice sample_ext xs w) \<in> set xs"
    by (simp add: sample_ext_def)
  have a: "fst (GuitarSet_load_question_data sample_ext 7) =
        [(''question'', VStr ''Transcribe music recordings into MIDI note sequences.'')]"
    by (simp add: GuitarSet_load_question_data_def sample_ext_def)
  show ?thesis
    using question_is_fixed_prompt [OF h, of 7] a by blast
qed

text \<open>Whatever \<^verbatim>\<open>GuitarSet.__getitem__\<close> returns is \<^verbatim>\<open>None\<close>.\<close>

lemma GuitarSet_getitem_None:
  "GuitarSet_getitem X self i w = Inr (r, w') \<Longrightarrow> r = VNone"
  by (auto simp: GuitarSet_getitem_def Let_def split: sum.splits prod.splits)

text \<open>
  Claim C1. The claim asks that \<^verbatim>\<open>__getitem__\<close> return a complete example (audio,
  start time, duration, target, metadata). \<^verbatim>\<open>GuitarSet.__getitem__\<close> never returns a
  dictionary: its body ends after \<^verbatim>\<open>full_data.update(audio_data)\<close>, so on the valid
  index \<open>0\<close> of the sample dataset the caller receives \<^verbatim>\<open>None\<close>.
\<close>

theorem GuitarSet_getitem_returns_None:
  "GuitarSet_getitem X self i w \<noteq> Inr (VDict d, w')
   \<and> GuitarSet_getitem sample_ext sample_guitarset 0 0 = Inr (VNone, 0)"
proof
  show "GuitarSet_getitem X self i w \<noteq> Inr (VDict d, w')"
    using GuitarSet_getitem_None [of X self i w "VDict d" w'] by auto
  show "GuitarSet_getitem sample_ext sample_guitarset 0 0 = Inr (VNone, 0)"
    by (simp add: GuitarSet_getitem_def GuitarSet_load_audio_data_def getitem_def
          sample_ext_def sample_guitarset_def)
qed

text \<open>
  Claim C8. The claim asks that \<^verbatim>\<open>load_meta\<close> keep the rows whose \<^verbatim>\<open>File Path\<close> starts
  with \<^verbatim>\<open>05\<close> for the test split and the other rows otherwise. The code indexes the
  table with one \<^verbatim>\<open>bool\<close> computed from the printed form of the whole column; with
  pandas' indexing that raises \<^verbatim>\<open>KeyError\<close> for every table, every split and every
  printed form, and no row is selected. On the sample table (one row of each kind) both
  splits raise.
\<close>

theorem GuitarSet_load_meta_raises:
  "(\<exists>e. GuitarSet_load_meta (X\<lparr>df_getitem_bool := pandas_getitem_bool\<rparr>) root' split' meta_csv = Inl e)
   \<and> GuitarSet_load_meta sample_ext ''root'' ''test'' ''root/metadata.csv'' = Inl (KeyError ''False'')
   \<and> GuitarSet_load_meta sample_ext ''root'' ''train'' ''root/metadata.csv'' = Inl (KeyError ''True'')"
proof (intro conjI)
  show "\<exists>e. GuitarSet_load_meta (X\<lparr>df_getitem_bool := pandas_getitem_bool\<rparr>) root' split' meta_csv = Inl e"
    by (auto simp: GuitarSet_load_meta_def pandas_getitem_bool_def split: sum.splits)
  show "GuitarSet_load_meta sample_ext ''root'' ''test'' ''root/metadata.csv'' = Inl (KeyError ''False'')"
    by (simp add: GuitarSet_load_meta_def pandas_getitem_bool_def sample_ext_def
          sample_table_def df_column_def startswith_def)
  show "GuitarSet_load_meta sample_ext ''root'' ''train'' ''root/metadata.csv'' = Inl (KeyError ''True'')"
    by (simp add: GuitarSet_load_meta_def pandas_getitem_bool_def sample_ext_def
          sample_table_def df_column_def startswith_def)
qed

text \<open>The comprehension over the audio paths yields one duration per path, and a column
  one cell per row.\<close>

lemma durations_of_length:
  "durations_of X ps = Inr ds \<Longrightarrow> length ds = length ps"
  by (induction ps arbitrary: ds) (auto split: sum.splits)

lemma df_column_length:
  "df_column df c = Inr xs \<Longrightarrow> length xs = length (rows df)"
  by (auto simp: df_column_def split: if_splits)

text \<open>What \<^verbatim>\<open>load_meta\<close> returns when it returns, whatever indexing a table with a
  \<^verbatim>\<open>bool\<close> does: five lists of one length.\<close>

lemma GuitarSet_load_meta_lengths:
  assumes "GuitarSet_load_meta X root' split' meta_csv = Inr m"
  shows "\<exists>an ap mn mp du.
           m = [(''audio_name'', VList an), (''audio_path'', VList ap),
                (''midi_name'', VList mn), (''midi_path'', VList mp),
                (''duration'', VList du)]
         \<and> length ap = length an \<and> length mn = length an
         \<and> length mp = length an \<and> length du = length an"
proof -
  from assms obtain df audio_names midi_names durations where
    a: "df_column df ''File Path'' = Inr audio_names" and
    b: "df_column df ''Midi_file_path'' = Inr midi_names" and
    c: "durations_of X (map (\<lambda>name. Path X [root', ''data'', name]) audio_names) = Inr durations" and
    m: "m = [(''audio_name'', VList (map VStr audio_names)),
             (''audio_path'', VList (map VStr (map (\<lambda>name. Path X [root', ''data'', name]) audio_names))),
             (''midi_name'', VList (map VStr midi_names)),
             (''midi_path'', VList (map VStr (map (\<lambda>name. Path X [root', ''data'', name]) midi_names))),
             (''duration'', VList (map VFloat durations))]"
    unfolding GuitarSet_load_meta_def Let_def
    by (auto split: sum.splits)
  have "length midi_names = length audio_names"
    using df_column_length [OF a] df_column_length [OF b] by simp
  moreover have "length durations = length audio_names"
    using durations_of_length [OF c] by simp
  ultimately show ?thesis
    unfolding m by simp
qed


text \<open>The sample reader and clipper, evaluated.\<close>

lemma sample_read_extended:
  "read_single_track_midi sample_ext ''root/data/05_a.mid'' True =
     Inr (VList [VObj (Note 0 3 60 100), VObj (Note 8 14 62 90), VObj (Note 20 21 64 80)],
          VList [VObj (Pedal (1/2) 3)])"
  by (simp add: sample_ext_def sample_read_midi_def)

lemma sample_clip_eval:
  "clip_notes sample_ext (VList es) (VFloat s) (VFloat d) = Inr (VList (concat (map (clip_event s d) es)))"
  by (simp add: sample_ext_def)

text \<open>The sample stems and the target built from them, for any window.\<close>

lemma sample_stems_eval:
  "load_target_data_stems sample_ext sample_slakh ''root/train/Track00001/MIDI''
     [(''S00'', VDict [(''inst_class'', VStr ''Guitar''), (''is_drum'', VBool False),
                       (''midi_saved'', VBool True), (''plugin_name'', VStr ''nylon.nkm''),
                       (''program_num'', VInt 24)]),
      (''S01'', VDict [(''midi_saved'', VBool False)]),
      (''S02'', VDict [(''inst_class'', VStr ''Drums''), (''is_drum'', VBool True),
                       (''midi_saved'', VBool True), (''plugin_name'', VStr ''kit.nkm''),
                       (''program_num'', VInt 128)])] [] =
   Inr [VDict [(''track_name'', VStr ''S00''), (''inst_class'', VStr ''Guitar''),
               (''is_drum'', VBool False), (''plugin_name'', VStr ''nylon.nkm''),
               (''program_num'', VInt 24),
               (''note'', VList [VObj (Note 0 3 60 100), VObj (Note 8 14 62 90),
                                 VObj (Note 20 21 64 80)]),
               (''pedal'', VList [VObj (Pedal (1/2) 3)])],
        VDict [(''track_name'', VStr ''S02''), (''inst_class'', VStr ''Drums''),
               (''is_drum'', VBool True), (''plugin_name'', VStr ''kit.nkm''),
               (''program_num'', VInt 128),
               (''note'', VList [VObj (Note 0 3 60 100), VObj (Note 8 14 62 90),
                                 VObj (Note 20 21 64 80)]),
               (''pedal'', VList [VObj (Pedal (1/2) 3)])]]"
  by (simp add: getitem_def sample_ext_def sample_slakh_def sample_read_midi_def)

lemma sample_target_eval:
  "Slakh2100_load_target_data sample_ext sample_slakh my mm ''root/train/Track00001/MIDI'' st cd =
   Inr (VDict [(''start_time'', st), (''clip_duration'', cd),
        (''beat'', VList [VFloat 0, VFloat 1]), (''downbeat'', VList [VFloat 0]),
        (''tracks'', VList
          [VDict [(''track_name'', VStr ''S00''), (''inst_class'', VStr ''Guitar''),
               (''is_drum'', VBool False), (''plugin_name'', VStr ''nylon.nkm''),
               (''program_num'', VInt 24),
               (''note'', VList [VObj (Note 0 3 60 100), VObj (Note 8 14 62 90),
                                 VObj (Note 20 21 64 80)]),
               (''pedal'', VList [VObj (Pedal (1/2) 3)])],
           VDict [(''track_name'', VStr ''S02''), (''inst_class'', VStr ''Drums''),
               (''is_drum'', VBool True), (''plugin_name'', VStr ''kit.nkm''),
               (''program_num'', VInt 128),
               (''note'', VList [VObj (Note 0 3 60 100), VObj (Note 8 14 62 90),
                                 VObj (Note 20 21 64 80)]),
               (''pedal'', VList [VObj (Pedal (1/2) 3)])]])])"
proof -
  have y: "yaml_load sample_ext my = Inr sample_meta"
    and b: "read_midi_beat sample_ext mm = Inr (VList [VFloat 0, VFloat 1], VList [VFloat 0])"
    by (simp_all add: sample_ext_def)
  have t: "target_transform sample_slakh = None"
    by (simp add: sample_slakh_def)
  show ?thesis
    unfolding Slakh2100_load_target_data_def y b
    by (simp add: sample_meta_def getitem_def sample_stems_eval t
          del: load_target_data_stems.simps)
qed

text \<open>
  Claim C4. Whenever \<^verbatim>\<open>GuitarSet.load_target_data\<close> returns, the lists it clipped are
  the ones \<^verbatim>\<open>read_single_track_midi\<close> returned for the path with the flag
  \<^verbatim>\<open>extend_pedal\<close> of the dataset: the pedal extension is done by the reader, and
  \<^verbatim>\<open>clip_notes\<close> runs on its output, for notes and pedals alike, before the target is
  built and transformed.
\<close>

theorem extension_precedes_clipping:
  assumes "GuitarSet_load_target_data X self midi_path start_time duration = Inr target"
  shows "\<exists>notes0 pedals0 notes pedals.
           read_single_track_midi X midi_path (extend_pedal self) = Inr (notes0, pedals0)
         \<and> clip_notes X notes0 start_time duration = Inr notes
         \<and> clip_notes X pedals0 start_time duration = Inr pedals
         \<and> (case target_transform self of
               None \<Rightarrow> target = VDict [(''note'', notes), (''pedal'', pedals),
                            (''start_time'', start_time), (''duration'', duration),
                            (''midi_path'', VStr midi_path)]
             | Some t \<Rightarrow> call X t (VDict [(''note'', notes), (''pedal'', pedals),
                            (''start_time'', start_time), (''duration'', duration),
                            (''midi_path'', VStr midi_path)]) = Inr target)"
  using assms unfolding GuitarSet_load_target_data_def Let_def
  by (auto split: sum.splits option.splits prod.splits)

text \<open>
  On the sample file with the window \<open>[2, 3)\<close> the first note, extended from offset
  \<open>1\<close> to \<open>3\<close>, is in the target; clipping the notes as they are without
  extension leaves none.
\<close>

theorem extension_precedes_clipping_witness:
  "GuitarSet_load_target_data sample_ext sample_guitarset ''root/data/05_a.mid'' (VFloat 2) (VFloat 1)
     = Inr (VDict [(''note'', VList [VObj (Note 0 1 60 100)]),
                   (''pedal'', VList [VObj (Pedal 0 1)]),
                   (''start_time'', VFloat 2), (''duration'', VFloat 1),
                   (''midi_path'', VStr ''root/data/05_a.mid'')])
   \<and> read_single_track_midi sample_ext ''root/data/05_a.mid'' (extend_pedal sample_guitarset)
     = Inr (VList [VObj (Note 0 3 60 100), VObj (Note 8 14 62 90), VObj (Note 20 21 64 80)],
            VList [VObj (Pedal (1/2) 3)])
   \<and> clip_notes sample_ext
        (VList [VObj (Note 0 3 60 100), VObj (Note 8 14 62 90), VObj (Note 20 21 64 80)])
        (VFloat 2) (VFloat 1) = Inr (VList [VObj (Note 0 1 60 100)])
   \<and> clip_notes sample_ext
        (VList [VObj (Note 0 1 60 100), VObj (Note 8 14 62 90), VObj (Note 20 21 64 80)])
        (VFloat 2) (VFloat 1) = Inr (VList [])"
proof -
  have e: "extend_pedal sample_guitarset" and t: "target_transform sample_guitarset = None"
    by (simp_all add: sample_guitarset_def)
  have r: "GuitarSet_load_target_data sample_ext sample_guitarset ''root/data/05_a.mid'' (VFloat 2) (VFloat 1)
     = Inr (VDict [(''note'', VList [VObj (Note 0 1 60 100)]),
                   (''pedal'', VList [VObj (Pedal 0 1)]),
                   (''start_time'', VFloat 2), (''duration'', VFloat 1),
                   (''midi_path'', VStr ''root/data/05_a.mid'')])"
    by (simp add: GuitarSet_load_target_data_def e t sample_read_extended sample_clip_eval)
  have c1: "clip_notes sample_ext
        (VList [VObj (Note 0 3 60 100), VObj (Note 8 14 62 90), VObj (Note 20 21 64 80)])
        (VFloat 2) (VFloat 1) = Inr (VList [VObj (Note 0 1 60 100)])"
    by (simp add: sample_clip_eval)
  have c2: "clip_notes sample_ext
        (VList [VObj (Note 0 1 60 100), VObj (Note 8 14 62 90), VObj (Note 20 21 64 80)])
        (VFloat 2) (VFloat 1) = Inr (VList [])"
    by (simp add: sample_clip_eval)
  from extension_precedes_clipping [OF r] e
  have "read_single_track_midi sample_ext ''root/data/05_a.mid'' (extend_pedal sample_guitarset)
     = Inr (VList [VObj (Note 0 3 60 100), VObj (Note 8 14 62 90), VObj (Note 20 21 64 80)],
            VList [VObj (Pedal (1/2) 3)])"
    by (auto simp: sample_read_extended)
  with r c1 c2 show ?thesis by simp
qed







text \<open>
  The loop over the stems. When every stem record has the key \<^verbatim>\<open>midi_saved\<close>, the loop
  does on the whole list what it does on the saved stems alone, success or failure.
\<close>

lemma stems_skip_unsaved:
  assumes "\<forall>(n, sd) \<in> set stems. \<exists>v. subscript sd ''midi_saved'' = Inr v"
  shows "load_target_data_stems X self md stems acc =
         load_target_data_stems X self md (filter (\<lambda>(n, sd). stem_saved sd) stems) acc"
  using assms
proof (induction stems arbitrary: acc)
  case Nil
  show ?case by simp
next
  case (Cons a stems)
  obtain n sd where a: "a = (n, sd)" by (cases a)
  from Cons.prems a obtain v where v: "subscript sd ''midi_saved'' = Inr v" by auto
  have rest: "\<forall>(n, sd) \<in> set stems. \<exists>v. subscript sd ''midi_saved'' = Inr v"
    using Cons.prems by simp
  show ?case
  proof (cases "truthy v")
    case True
    then have "stem_saved sd" by (simp add: stem_saved_def v)
    then show ?thesis
      using Cons.IH [OF rest] by (simp add: a v True split: sum.splits prod.splits)
  next
    case False
    then have "\<not> stem_saved sd" by (simp add: stem_saved_def v)
    then show ?thesis
      using Cons.IH [OF rest] by (simp add: a v False)
  qed
qed

text \<open>The names of the tracks appended are the names of the saved stems, in order.\<close>

lemma stems_track_names:
  assumes "load_target_data_stems X self md stems acc = Inr tracks"
  shows "map (\<lambda>t. subscript t ''track_name'') tracks =
         map (\<lambda>t. subscript t ''track_name'') acc @
         map (\<lambda>(n, sd). Inr (VStr n)) (filter (\<lambda>(n, sd). stem_saved sd) stems)"
  using assms
proof (induction stems arbitrary: acc)
  case Nil
  then show ?case by simp
next
  case (Cons a stems)
  obtain n sd where a: "a = (n, sd)" by (cases a)
  from Cons.prems a obtain v where v: "subscript sd ''midi_saved'' = Inr v"
    by (auto split: sum.splits)
  show ?case
  proof (cases "truthy v")
    case False
    then have "\<not> stem_saved sd" by (simp add: stem_saved_def v)
    moreover from Cons.prems have "load_target_data_stems X self md stems acc = Inr tracks"
      by (simp add: a v False)
    ultimately show ?thesis
      using Cons.IH by (simp add: a)
  next
    case True
    then have s: "stem_saved sd" by (simp add: stem_saved_def v)
    from Cons.prems obtain track where
      "load_target_data_stems X self md stems (acc @ [track]) = Inr tracks"
      and "subscript track ''track_name'' = Inr (VStr n)"
      by (auto simp: a v True getitem_def split: sum.splits prod.splits)
    then show ?thesis
      using Cons.IH [of "acc @ [track]"] by (simp add: a s)
  qed
qed

text \<open>The loop finishes when the saved stems have their four keys and a readable
  file; nothing is asked of the other stems.\<close>

lemma stems_succeed:
  assumes "\<forall>(n, sd) \<in> set stems. \<exists>v. subscript sd ''midi_saved'' = Inr v"
    and "\<forall>(n, sd) \<in> set stems. stem_saved sd \<longrightarrow>
           (\<exists>a b c d. subscript sd ''inst_class'' = Inr a \<and> subscript sd ''is_drum'' = Inr b
                    \<and> subscript sd ''plugin_name'' = Inr c \<and> subscript sd ''program_num'' = Inr d)
         \<and> (\<exists>ns ps. read_single_track_midi X (Path X [md, n @ ''.mid'']) (extend_pedal self)
                      = Inr (ns, ps))"
  shows "\<exists>tracks. load_target_data_stems X self md stems acc = Inr tracks"
  using assms
proof (induction stems arbitrary: acc)
  case Nil
  show ?case by simp
next
  case (Cons a stems)
  obtain n sd where a: "a = (n, sd)" by (cases a)
  from Cons.prems(1) a obtain v where v: "subscript sd ''midi_saved'' = Inr v" by auto
  have r1: "\<forall>(n, sd) \<in> set stems. \<exists>v. subscript sd ''midi_saved'' = Inr v"
    using Cons.prems(1) by simp
  have r2: "\<forall>(n, sd) \<in> set stems. stem_saved sd \<longrightarrow>
           (\<exists>a b c d. subscript sd ''inst_class'' = Inr a \<and> subscript sd ''is_drum'' = Inr b
                    \<and> subscript sd ''plugin_name'' = Inr c \<and> subscript sd ''program_num'' = Inr d)
         \<and> (\<exists>ns ps. read_single_track_midi X (Path X [md, n @ ''.mid'']) (extend_pedal self)
                      = Inr (ns, ps))"
    using Cons.prems(2) by simp
  show ?case
  proof (cases "truthy v")
    case False
    then show ?thesis
      using Cons.IH [OF r1 r2, of acc] by (simp add: a v)
  next
    case True
    then have "stem_saved sd" by (simp add: stem_saved_def v)
    with Cons.prems(2) a obtain ic dr pn pg ns ps where
      k: "subscript sd ''inst_class'' = Inr ic" "subscript sd ''is_drum'' = Inr dr"
         "subscript sd ''plugin_name'' = Inr pn" "subscript sd ''program_num'' = Inr pg"
      and r: "read_single_track_midi X (Path X [md, n @ ''.mid'']) (extend_pedal self) = Inr (ns, ps)"
      by auto
    show ?thesis
      using Cons.IH [OF r1 r2] by (simp add: a v True k r)
  qed
qed

text \<open>Each track appended is the record of one saved stem: its name, its four
  metadata values and the notes and pedals read from its own file.\<close>

lemma stems_track_records:
  assumes "load_target_data_stems X self md stems acc = Inr tracks"
  shows "\<exists>new. tracks = acc @ new \<and>
          list_all2 (\<lambda>(stem_name, stem_data) track.
              \<exists>inst_class is_drum plugin_name program_num notes pedals.
                 subscript stem_data ''inst_class'' = Inr inst_class
               \<and> subscript stem_data ''is_drum'' = Inr is_drum
               \<and> subscript stem_data ''plugin_name'' = Inr plugin_name
               \<and> subscript stem_data ''program_num'' = Inr program_num
               \<and> read_single_track_midi X (Path X [md, stem_name @ ''.mid''])
                    (extend_pedal self) = Inr (notes, pedals)
               \<and> track = VDict [(''track_name'', VStr stem_name),
                                 (''inst_class'', inst_class), (''is_drum'', is_drum),
                                 (''plugin_name'', plugin_name),
                                 (''program_num'', program_num),
                                 (''note'', notes), (''pedal'', pedals)])
            (filter (\<lambda>(n, sd). stem_saved sd) stems) new"
  using assms
proof (induction stems arbitrary: acc)
  case Nil
  then show ?case by simp
next
  case (Cons a stems)
  obtain n sd where a: "a = (n, sd)" by (cases a)
  from Cons.prems a obtain v where v: "subscript sd ''midi_saved'' = Inr v"
    by (auto split: sum.splits)
  show ?case
  proof (cases "truthy v")
    case False
    then have "\<not> stem_saved sd" by (simp add: stem_saved_def v)
    moreover from Cons.prems have "load_target_data_stems X self md stems acc = Inr tracks"
      by (simp add: a v False)
    ultimately show ?thesis
      using Cons.IH by (simp add: a)
  next
    case True
    then have s: "stem_saved sd" by (simp add: stem_saved_def v)
    from Cons.prems obtain ic dr pn pg ns ps where
      k: "subscript sd ''inst_class'' = Inr ic" "subscript sd ''is_drum'' = Inr dr"
         "subscript sd ''plugin_name'' = Inr pn" "subscript sd ''program_num'' = Inr pg"
      and r: "read_single_track_midi X (Path X [md, n @ ''.mid'']) (extend_pedal self) = Inr (ns, ps)"
      and l: "load_target_data_stems X self md stems
                (acc @ [VDict [(''track_name'', VStr n), (''inst_class'', ic), (''is_drum'', dr),
                               (''plugin_name'', pn), (''program_num'', pg),
                               (''note'', ns), (''pedal'', ps)]]) = Inr tracks"
      by (auto simp: a v True split: sum.splits prod.splits)
    from Cons.IH [OF l] obtain new where
      "tracks = (acc @ [VDict [(''track_name'', VStr n), (''inst_class'', ic), (''is_drum'', dr),
                               (''plugin_name'', pn), (''program_num'', pg),
                               (''note'', ns), (''pedal'', ps)]]) @ new"
      and "list_all2 (\<lambda>(stem_name, stem_data) track.
              \<exists>inst_class is_drum plugin_name program_num notes pedals.
                 subscript stem_data ''inst_class'' = Inr inst_class
               \<and> subscript stem_data ''is_drum'' = Inr is_drum
               \<and> subscript stem_data ''plugin_name'' = Inr plugin_name
               \<and> subscript stem_data ''program_num'' = Inr program_num
               \<and> read_single_track_midi X (Path X [md, stem_name @ ''.mid''])
                    (extend_pedal self) = Inr (notes, pedals)
               \<and> track = VDict [(''track_name'', VStr stem_name),
                                 (''inst_class'', inst_class), (''is_drum'', is_drum),
                                 (''plugin_name'', plugin_name),
                                 (''program_num'', program_num),
                                 (''note'', notes), (''pedal'', pedals)])
            (filter (\<lambda>(n, sd). stem_saved sd) stems) new"
      by blast
    then show ?thesis
      using k r by (simp add: a s)
  qed
qed

text \<open>Only a dictionary has \<^verbatim>\<open>items()\<close>.\<close>

lemma items_Inr: "items v = Inr d \<Longrightarrow> v = VDict d"
  by (cases v) auto

text \<open>
  Claim C5. Let the YAML record and the beats load, let every stem record have the key
  \<^verbatim>\<open>midi_saved\<close>, and let the stems whose MIDI is saved have their metadata keys and a
  readable file; nothing is assumed of the stems marked as not saved. Then the loop
  gives the result it gives on the saved stems alone, it succeeds, the tracks are
  those of the saved stems in order, and \<^verbatim>\<open>Slakh2100.load_target_data\<close> returns the
  target built from them (passed through the target transform if there is one).
\<close>

theorem unsaved_stems_skipped:
  assumes "yaml_load X meta_yaml = Inr meta"
    and "subscript meta ''stems'' = Inr (VDict stems)"
    and "read_midi_beat X mix_midi_path = Inr (beats, downbeats)"
    and "\<forall>(n, sd) \<in> set stems. \<exists>v. subscript sd ''midi_saved'' = Inr v"
    and "\<forall>(n, sd) \<in> set stems. stem_saved sd \<longrightarrow>
           (\<exists>a b c d. subscript sd ''inst_class'' = Inr a \<and> subscript sd ''is_drum'' = Inr b
                    \<and> subscript sd ''plugin_name'' = Inr c \<and> subscript sd ''program_num'' = Inr d)
         \<and> (\<exists>ns ps. read_single_track_midi X (Path X [midis_dir, n @ ''.mid''])
                        (extend_pedal self) = Inr (ns, ps))"
  shows "load_target_data_stems X self midis_dir stems [] =
           load_target_data_stems X self midis_dir (filter (\<lambda>(n, sd). stem_saved sd) stems) []
       \<and> (\<exists>tracks.
             load_target_data_stems X self midis_dir stems [] = Inr tracks
           \<and> map (\<lambda>t. subscript t ''track_name'') tracks =
               map (\<lambda>(n, sd). Inr (VStr n)) (filter (\<lambda>(n, sd). stem_saved sd) stems)
           \<and> Slakh2100_load_target_data X self meta_yaml mix_midi_path midis_dir
                 start_time clip_duration =
               (case target_transform self of
                  None \<Rightarrow> Inr (VDict [(''start_time'', start_time),
                             (''clip_duration'', clip_duration), (''beat'', beats),
                             (''downbeat'', downbeats), (''tracks'', VList tracks)])
                | Some t \<Rightarrow> t (VDict [(''start_time'', start_time),
                             (''clip_duration'', clip_duration), (''beat'', beats),
                             (''downbeat'', downbeats), (''tracks'', VList tracks)])))"
proof -
  from stems_succeed [OF assms(4) assms(5), of "[]"] obtain tracks where
    t: "load_target_data_stems X self midis_dir stems [] = Inr tracks"
    by blast
  have n: "map (\<lambda>t. subscript t ''track_name'') tracks =
               map (\<lambda>(n, sd). Inr (VStr n)) (filter (\<lambda>(n, sd). stem_saved sd) stems)"
    using stems_track_names [OF t] by simp
  have r: "Slakh2100_load_target_data X self meta_yaml mix_midi_path midis_dir
                 start_time clip_duration =
               (case target_transform self of
                  None \<Rightarrow> Inr (VDict [(''start_time'', start_time),
                             (''clip_duration'', clip_duration), (''beat'', beats),
                             (''downbeat'', downbeats), (''tracks'', VList tracks)])
                | Some t \<Rightarrow> t (VDict [(''start_time'', start_time),
                             (''clip_duration'', clip_duration), (''beat'', beats),
                             (''downbeat'', downbeats), (''tracks'', VList tracks)]))"
    unfolding Slakh2100_load_target_data_def
    by (simp add: assms(1) assms(2) assms(3) t split: option.splits)
  show ?thesis
    using stems_skip_unsaved [OF assms(4), of X self midis_dir "[]"] t n r by blast
qed

text \<open>
  In the sample record \<^verbatim>\<open>S01\<close> is marked as not saved; its file cannot be read and its
  record has no \<^verbatim>\<open>inst_class\<close>. The target has the tracks \<^verbatim>\<open>S00\<close> and \<^verbatim>\<open>S02\<close>.
\<close>

theorem unsaved_stems_skipped_witness:
  "read_single_track_midi sample_ext ''root/train/Track00001/MIDI/S01.mid'' True
     = Inl (External ''no such file'')
   \<and> subscript (VDict [(''midi_saved'', VBool False)]) ''inst_class'' = Inl (KeyError ''inst_class'')
   \<and> (\<exists>tracks.
         Slakh2100_load_target_data sample_ext sample_slakh
           ''root/train/Track00001/metadata.yaml'' ''root/train/Track00001/all_src.mid''
           ''root/train/Track00001/MIDI'' (VFloat 10) (VFloat 5) =
         Inr (VDict [(''start_time'', VFloat 10), (''clip_duration'', VFloat 5),
                     (''beat'', VList [VFloat 0, VFloat 1]), (''downbeat'', VList [VFloat 0]),
                     (''tracks'', VList tracks)])
       \<and> map (\<lambda>t. subscript t ''track_name'') tracks = [Inr (VStr ''S00''), Inr (VStr ''S02'')])"
proof -
  let ?s0 = "VDict [(''inst_class'', VStr ''Guitar''), (''is_drum'', VBool False),
                       (''midi_saved'', VBool True), (''plugin_name'', VStr ''nylon.nkm''),
                       (''program_num'', VInt 24)]"
  let ?s1 = "VDict [(''midi_saved'', VBool False)]"
  let ?s2 = "VDict [(''inst_class'', VStr ''Drums''), (''is_drum'', VBool True),
                       (''midi_saved'', VBool True), (''plugin_name'', VStr ''kit.nkm''),
                       (''program_num'', VInt 128)]"
  let ?stems = "[(''S00'', ?s0), (''S01'', ?s1), (''S02'', ?s2)]"
  have y: "yaml_load sample_ext ''root/train/Track00001/metadata.yaml'' = Inr sample_meta"
    by (simp add: sample_ext_def)
  have st: "subscript sample_meta ''stems'' = Inr (VDict ?stems)"
    by (simp add: sample_meta_def getitem_def)
  have b: "read_midi_beat sample_ext ''root/train/Track00001/all_src.mid'' =
             Inr (VList [VFloat 0, VFloat 1], VList [VFloat 0])"
    by (simp add: sample_ext_def)
  have sv: "stem_saved ?s0" "\<not> stem_saved ?s1" "stem_saved ?s2"
    by (simp_all add: stem_saved_def getitem_def)
  have k: "\<forall>(n, sd) \<in> set ?stems. \<exists>v. subscript sd ''midi_saved'' = Inr v"
    by (simp add: getitem_def)
  have r0: "read_single_track_midi sample_ext
              (Path sample_ext [''root/train/Track00001/MIDI'', ''S00'' @ ''.mid''])
              (extend_pedal sample_slakh) =
            Inr (VList [VObj (Note 0 3 60 100), VObj (Note 8 14 62 90), VObj (Note 20 21 64 80)],
                 VList [VObj (Pedal (1/2) 3)])"
    and r2: "read_single_track_midi sample_ext
              (Path sample_ext [''root/train/Track00001/MIDI'', ''S02'' @ ''.mid''])
              (extend_pedal sample_slakh) =
            Inr (VList [VObj (Note 0 3 60 100), VObj (Note 8 14 62 90), VObj (Note 20 21 64 80)],
                 VList [VObj (Pedal (1/2) 3)])"
    by (simp_all add: sample_ext_def sample_read_midi_def sample_slakh_def)
  have ok: "\<forall>(n, sd) \<in> set ?stems. stem_saved sd \<longrightarrow>
           (\<exists>a b c d. subscript sd ''inst_class'' = Inr a \<and> subscript sd ''is_drum'' = Inr b
                    \<and> subscript sd ''plugin_name'' = Inr c \<and> subscript sd ''program_num'' = Inr d)
         \<and> (\<exists>ns ps. read_single_track_midi sample_ext
                        (Path sample_ext [''root/train/Track00001/MIDI'', n @ ''.mid''])
                        (extend_pedal sample_slakh) = Inr (ns, ps))"
    using sv r0 r2 by (simp add: getitem_def)
  have f: "filter (\<lambda>(n, sd). stem_saved sd) ?stems = [(''S00'', ?s0), (''S02'', ?s2)]"
    using sv by simp
  have t: "target_transform sample_slakh = None"
    by (simp add: sample_slakh_def)
  have m: "read_single_track_midi sample_ext ''root/train/Track00001/MIDI/S01.mid'' True
     = Inl (External ''no such file'')"
    by (simp add: sample_ext_def sample_read_midi_def)
  have e: "subscript ?s1 ''inst_class'' = Inl (KeyError ''inst_class'')"
    by (simp add: getitem_def)
  from unsaved_stems_skipped [OF y st b k ok, of "VFloat 10" "VFloat 5"]
  have "\<exists>tracks.
         Slakh2100_load_target_data sample_ext sample_slakh
           ''root/train/Track00001/metadata.yaml'' ''root/train/Track00001/all_src.mid''
           ''root/train/Track00001/MIDI'' (VFloat 10) (VFloat 5) =
         Inr (VDict [(''start_time'', VFloat 10), (''clip_duration'', VFloat 5),
                     (''beat'', VList [VFloat 0, VFloat 1]), (''downbeat'', VList [VFloat 0]),
                     (''tracks'', VList tracks)])
       \<and> map (\<lambda>t. subscript t ''track_name'') tracks = [Inr (VStr ''S00''), Inr (VStr ''S02'')]"
    unfolding f t by auto
  with m e show ?thesis by blast
qed

text \<open>
  Claim C7. Whenever \<^verbatim>\<open>Slakh2100.load_target_data\<close> returns, the tracks of the target
  it built (and returned, or handed to the target transform) correspond one to one, in
  order, to the saved stems of the YAML record, and each track holds its stem's name
  as \<^verbatim>\<open>track_name\<close>, the stem's \<^verbatim>\<open>inst_class\<close>, \<^verbatim>\<open>is_drum\<close>, \<^verbatim>\<open>plugin_name\<close> and
  \<^verbatim>\<open>program_num\<close>, and the notes and pedals read from the stem's own file.
\<close>

theorem tracks_carry_metadata:
  assumes "Slakh2100_load_target_data X self meta_yaml mix_midi_path midis_dir
             start_time clip_duration = Inr result"
  shows "\<exists>meta stems beats downbeats tracks.
           yaml_load X meta_yaml = Inr meta
         \<and> subscript meta ''stems'' = Inr (VDict stems)
         \<and> (case target_transform self of
               None \<Rightarrow> result = VDict [(''start_time'', start_time),
                             (''clip_duration'', clip_duration), (''beat'', beats),
                             (''downbeat'', downbeats), (''tracks'', VList tracks)]
             | Some t \<Rightarrow> t (VDict [(''start_time'', start_time),
                             (''clip_duration'', clip_duration), (''beat'', beats),
                             (''downbeat'', downbeats), (''tracks'', VList tracks)]) = Inr result)
         \<and> list_all2 (\<lambda>(stem_name, stem_data) track.
              \<exists>inst_class is_drum plugin_name program_num notes pedals.
                 subscript stem_data ''inst_class'' = Inr inst_class
               \<and> subscript stem_data ''is_drum'' = Inr is_drum
               \<and> subscript stem_data ''plugin_name'' = Inr plugin_name
               \<and> subscript stem_data ''program_num'' = Inr program_num
               \<and> read_single_track_midi X (Path X [midis_dir, stem_name @ ''.mid''])
                    (extend_pedal self) = Inr (notes, pedals)
               \<and> track = VDict [(''track_name'', VStr stem_name),
                                 (''inst_class'', inst_class), (''is_drum'', is_drum),
                                 (''plugin_name'', plugin_name),
                                 (''program_num'', program_num),
                                 (''note'', notes), (''pedal'', pedals)])
            (filter (\<lambda>(n, sd). stem_saved sd) stems) tracks"
proof -
  from assms obtain meta beats downbeats stemsv stems tracks where
    y: "yaml_load X meta_yaml = Inr meta" and
    s: "subscript meta ''stems'' = Inr stemsv" and
    i: "items stemsv = Inr stems" and
    l: "load_target_data_stems X self midis_dir stems [] = Inr tracks" and
    r: "(case target_transform self of
               None \<Rightarrow> result = VDict [(''start_time'', start_time),
                             (''clip_duration'', clip_duration), (''beat'', beats),
                             (''downbeat'', downbeats), (''tracks'', VList tracks)]
             | Some t \<Rightarrow> t (VDict [(''start_time'', start_time),
                             (''clip_duration'', clip_duration), (''beat'', beats),
                             (''downbeat'', downbeats), (''tracks'', VList tracks)]) = Inr result)"
    unfolding Slakh2100_load_target_data_def Let_def
    by (auto split: sum.splits option.splits prod.splits)
  from s items_Inr [OF i] have s': "subscript meta ''stems'' = Inr (VDict stems)"
    by simp
  from stems_track_records [OF l] y s' r show ?thesis
    by auto
qed

text \<open>The sample target and its two tracks.\<close>

theorem tracks_carry_metadata_witness:
  "\<exists>meta stems beats downbeats tracks.
           yaml_load sample_ext ''root/train/Track00001/metadata.yaml'' = Inr meta
         \<and> subscript meta ''stems'' = Inr (VDict stems)
         \<and> Slakh2100_load_target_data sample_ext sample_slakh
              ''root/train/Track00001/metadata.yaml'' ''root/train/Track00001/all_src.mid''
              ''root/train/Track00001/MIDI'' (VFloat 10) (VFloat 5) =
            Inr (VDict [(''start_time'', VFloat 10),
                             (''clip_duration'', VFloat 5), (''beat'', beats),
                             (''downbeat'', downbeats), (''tracks'', VList tracks)])
         \<and> length tracks = 2
         \<and> list_all2 (\<lambda>(stem_name, stem_data) track.
              \<exists>inst_class is_drum plugin_name program_num notes pedals.
                 subscript stem_data ''inst_class'' = Inr inst_class
               \<and> subscript stem_data ''is_drum'' = Inr is_drum
               \<and> subscript stem_data ''plugin_name'' = Inr plugin_name
               \<and> subscript stem_data ''program_num'' = Inr program_num
               \<and> read_single_track_midi sample_ext
                    (Path sample_ext [''root/train/Track00001/MIDI'', stem_name @ ''.mid''])
                    (extend_pedal sample_slakh) = Inr (notes, pedals)
               \<and> track = VDict [(''track_name'', VStr stem_name),
                                 (''inst_class'', inst_class), (''is_drum'', is_drum),
                                 (''plugin_name'', plugin_name),
                                 (''program_num'', program_num),
                                 (''note'', notes), (''pedal'', pedals)])
            (filter (\<lambda>(n, sd). stem_saved sd) stems) tracks"
proof -
  have t: "target_transform sample_slakh = None"
    by (simp add: sample_slakh_def)
  note ev = sample_target_eval [of "''root/train/Track00001/metadata.yaml''"
      "''root/train/Track00001/all_src.mid''" "VFloat 10" "VFloat 5"]
  from tracks_carry_metadata [OF ev] show ?thesis
    unfolding t by (simp add: ev)
qed

text \<open>\<^verbatim>\<open>Slakh2100.__getitem__(0)\<close> on the sample dataset returns the merged dictionary;
  the prompt in it is the one \<^verbatim>\<open>random.choice\<close> draws in the state \<open>w\<close> of the global
  generator.\<close>

lemma sample_getitem_eval:
  "Slakh2100_getitem sample_ext sample_slakh 0 w =
     Inr (VDict [(''dataset_name'', VStr ''Slakh2100''),
        (''audio_path'', VStr ''root/train/Track00001/mix.flac''),
        (''audio'', VObj (Array [[0, 0]])), (''start_time'', VFloat 0),
        (''duration'', VFloat 30),
        (''question'', VStr ([''Music transcription.'',
                       ''Convert audio music into MIDI data format.'',
                       ''Transcribe music recordings into MIDI note sequences.'',
                       ''Automatically generate MIDI file from audio music.'',
                       ''Extract music elements and convert to MIDI notes.''] ! (w mod 5))),
        (''clip_duration'', VFloat 30),
        (''beat'', VList [VFloat 0, VFloat 1]),
        (''downbeat'', VList [VFloat 0]),
        (''tracks'', VList
          [VDict [(''track_name'', VStr ''S00''), (''inst_class'', VStr ''Guitar''),
               (''is_drum'', VBool False), (''plugin_name'', VStr ''nylon.nkm''),
               (''program_num'', VInt 24),
               (''note'', VList [VObj (Note 0 3 60 100), VObj (Note 8 14 62 90),
                                 VObj (Note 20 21 64 80)]),
               (''pedal'', VList [VObj (Pedal (1/2) 3)])],
           VDict [(''track_name'', VStr ''S02''), (''inst_class'', VStr ''Drums''),
               (''is_drum'', VBool True), (''plugin_name'', VStr ''kit.nkm''),
               (''program_num'', VInt 128),
               (''note'', VList [VObj (Note 0 3 60 100), VObj (Note 8 14 62 90),
                                 VObj (Note 20 21 64 80)]),
               (''pedal'', VList [VObj (Pedal (1/2) 3)])]])], Suc w)"
proof -
  have a: "Slakh2100_load_audio sample_ext sample_slakh ''root/train/Track00001/mix.flac'' w =
      Inr ([(''audio'', VObj (Array [[0, 0]])), (''start_time'', VFloat 0),
            (''duration'', VFloat 30)], w)"
    by (simp add: Slakh2100_load_audio_def sample_ext_def sample_slakh_def)
  have q: "Slakh2100_load_question sample_ext w =
      ([(''question'', VStr ([''Music transcription.'',
                       ''Convert audio music into MIDI data format.'',
                       ''Transcribe music recordings into MIDI note sequences.'',
                       ''Automatically generate MIDI file from audio music.'',
                       ''Extract music elements and convert to MIDI notes.''] ! (w mod 5)))], Suc w)"
    by (simp add: Slakh2100_load_question_def sample_ext_def)
  have p: "Path sample_ext [root_dir sample_slakh, split sample_slakh, ''Track00001''] = ''root/train/Track00001''"
    "Path sample_ext [''root/train/Track00001'', ''mix.flac''] = ''root/train/Track00001/mix.flac''"
    "Path sample_ext [''root/train/Track00001'', ''MIDI''] = ''root/train/Track00001/MIDI''"
    by (simp_all add: sample_ext_def sample_slakh_def)
  have m: "meta_dict sample_slakh = [(''audio_name'', VList [VStr ''Track00001''])]"
    and l: "load_target sample_slakh"
    by (simp_all add: sample_slakh_def)
  show ?thesis
    unfolding Slakh2100_getitem_def m
    by (simp add: getitem_def p a q l sample_target_eval dict_update_def)
qed

end
